theory Spec2Isabelle
  imports Complex_Main "HOL-Library.Multiset"
begin

section \<open>Data model (types.ts)\<close>

text \<open>
  JavaScript numbers are modelled as ideal reals (no rounding, no NaN, no infinities);
  counts and array lengths are naturals.  Strings are lists of characters.
  A JavaScript object is a record value: no handler of the program assigns to a field of
  an existing object, every update is a spread copy \<^verbatim>\<open>{...clip, field}\<close>.
  An optional property is an \<open>option\<close>; every other property has the type that types.ts
  declares for it.  The property \<open>score\<close> is not declared by \<^verbatim>\<open>VideoClip\<close>; the
  search handler adds it to its copies at run time.  Where two types have a property of
  the same name, a prefix tells the names apart (\<open>raw\<close> for a candidate of the backend,
  \<open>seg\<close> for a transcript segment).
\<close>

record video_clip =
  id :: string
  startTime :: real
  endTime :: real
  title :: string
  summary :: string
  viralityScore :: real
  reasoning :: string
  tags :: "string list"
  transcriptStub :: string
  embedding :: "real list option"
  score :: "real option"

text \<open>The element type of the parsed backend answer: \<^verbatim>\<open>Omit<VideoClip, 'id' | 'embedding'>\<close>.\<close>

record raw_clip =
  rawStartTime :: real
  rawEndTime :: real
  rawTitle :: string
  rawSummary :: string
  rawViralityScore :: real
  rawReasoning :: string
  rawTags :: "string list"
  rawTranscriptStub :: string

datatype AppState = IDLE | PROCESSING | ANALYZING | READY | ERROR

record video_frame =
  timestamp :: real
  data :: string

record comment_analysis =
  sentiment :: string
  analysisSummary :: string
  keyTopics :: "string list"
  viewerRequests :: "string list"
  contentSuggestions :: "string list"

record transcript_segment =
  segStartTime :: real
  segEndTime :: real
  segText :: string

datatype sort_order = Time | Viral

datatype sidebar_tab = ClipsTab | TranscriptTab | CommentsTab

datatype upload_source = Upload | Youtube

datatype error =
  BackendError | NoResponse | SyntaxError | CanvasContextError | VideoLoadError
  | VideoProcessingError | AudioError

section \<open>Frame sampling (services/videoProcessor.ts)\<close>

text \<open>
  What the browser gives for a selected file: the duration of the video, the picture at
  each time, whether creating the canvas or loading the video fails, and what the
  audio extraction returns.
\<close>

record video_file =
  fileName :: string
  fileDuration :: real
  frameData :: "real \<Rightarrow> string"
  decodeError :: "error option"
  audioTrack :: "error + string"

text \<open>
  \<^verbatim>\<open>captureFrame\<close> and \<^verbatim>\<open>onseeked\<close> call each other: a loop over
  \<open>currentTime\<close> and the array \<open>frames\<close>, which stops once the time reaches the
  duration or the array holds \<open>maxFrames\<close> frames.  The progress callback has no part
  in the frames returned and is left out.
\<close>

function captureFrame ::
  "video_file \<Rightarrow> real \<Rightarrow> nat \<Rightarrow> real \<Rightarrow> video_frame list \<Rightarrow> video_frame list" where
  "captureFrame file finalInterval maxFrames currentTime frames =
     (if currentTime \<ge> fileDuration file \<or> length frames \<ge> maxFrames then frames
      else captureFrame file finalInterval maxFrames (currentTime + finalInterval)
             (frames @ [\<lparr>timestamp = currentTime, data = frameData file currentTime\<rparr>]))"
  by pat_completeness auto
termination
  by (relation "measure (\<lambda>(file, finalInterval, maxFrames, currentTime, frames).
        maxFrames - length frames)") auto

declare captureFrame.simps [simp del]

definition extractFramesFromVideo ::
  "video_file \<Rightarrow> real \<Rightarrow> nat \<Rightarrow> error + video_frame list" where
  "extractFramesFromVideo file intervalSeconds maxFrames =
     (case decodeError file of
        Some e \<Rightarrow> Inl e
      | None \<Rightarrow>
          (let duration = fileDuration file;
               neededInterval = duration / real maxFrames;
               finalInterval = max intervalSeconds neededInterval
           in Inr (captureFrame file finalInterval maxFrames 0 [])))"

section \<open>Strings\<close>

text \<open>
  The string methods the handlers call.  A character is a code unit from 0 to 255, the
  first 256 code points of JavaScript's strings.  On these, \<^verbatim>\<open>toLowerCase\<close> maps
  the letters A to Z (65 to 90) and the capital letters 192 to 214 and 216 to 222 to the
  letter 32 places further, and leaves every other character;
  \<^verbatim>\<open>trim\<close> strips tab, line feed, vertical tab, form feed, carriage return, space
  and the no-break space (160); \<^verbatim>\<open>includes\<close> is the substring test and
  \<^verbatim>\<open>join\<close> concatenates with a separator.
\<close>

definition toLowerChar :: "char \<Rightarrow> char" where
  "toLowerChar c =
     (if (65 \<le> (of_char c :: nat) \<and> (of_char c :: nat) \<le> 90) \<or>
         (192 \<le> (of_char c :: nat) \<and> (of_char c :: nat) \<le> 214) \<or>
         (216 \<le> (of_char c :: nat) \<and> (of_char c :: nat) \<le> 222)
      then char_of ((of_char c :: nat) + 32) else c)"

definition toLowerCase :: "string \<Rightarrow> string" where
  "toLowerCase s = map toLowerChar s"

definition isWhiteSpace :: "char \<Rightarrow> bool" where
  "isWhiteSpace c = ((of_char c :: nat) \<in> {9, 10, 11, 12, 13, 32, 160})"

definition trim :: "string \<Rightarrow> string" where
  "trim s = rev (dropWhile isWhiteSpace (rev (dropWhile isWhiteSpace s)))"

fun startsWith :: "string \<Rightarrow> string \<Rightarrow> bool" where
  "startsWith s [] = True"
| "startsWith [] (q # qs) = False"
| "startsWith (c # cs) (q # qs) = (c = q \<and> startsWith cs qs)"

fun includes' :: "string \<Rightarrow> string \<Rightarrow> bool" where
  "includes' [] q = (q = [])"
| "includes' (c # cs) q = (startsWith (c # cs) q \<or> includes' cs q)"

fun join :: "string \<Rightarrow> string list \<Rightarrow> string" where
  "join sep [] = []"
| "join sep [x] = x"
| "join sep (x # y # ys) = x @ sep @ join sep (y # ys)"

fun toString :: "nat \<Rightarrow> string" where
  "toString n =
     (if n < 10 then [char_of (48 + n)] else toString (n div 10) @ [char_of (48 + n mod 10)])"

declare toString.simps [simp del]

section \<open>Arrays\<close>

text \<open>
  An array is a reference: two state variables may hold the same array, and
  \<^verbatim>\<open>Array.prototype.sort\<close> sorts the array it is called on in place.  The store is
  the list of all arrays allocated so far, an address is an index into it.
  \<^verbatim>\<open>map\<close>, \<^verbatim>\<open>filter\<close> and the spread \<^verbatim>\<open>[...list]\<close> allocate a new
  array; \<^verbatim>\<open>sort\<close> overwrites the one it is given and returns its address.
\<close>

type_synonym addr = nat

type_synonym heap = "video_clip list list"

definition array_new :: "heap \<Rightarrow> video_clip list \<Rightarrow> heap \<times> addr" where
  "array_new h xs = (h @ [xs], length h)"

definition array_copy :: "heap \<Rightarrow> addr \<Rightarrow> heap \<times> addr" where
  "array_copy h a = array_new h (h ! a)"

definition array_map :: "heap \<Rightarrow> addr \<Rightarrow> (video_clip \<Rightarrow> video_clip) \<Rightarrow> heap \<times> addr" where
  "array_map h a f = array_new h (map f (h ! a))"

definition array_filter :: "heap \<Rightarrow> addr \<Rightarrow> (video_clip \<Rightarrow> bool) \<Rightarrow> heap \<times> addr" where
  "array_filter h a p = array_new h (filter p (h ! a))"

text \<open>
  \<^verbatim>\<open>sort\<close> with a comparator is stable (ECMAScript 2019): an element moves in front
  of another one only where the comparator is positive for the pair in their current
  order.  The model is the stable insertion sort.
\<close>

fun insertBy :: "('a \<Rightarrow> 'a \<Rightarrow> real) \<Rightarrow> 'a \<Rightarrow> 'a list \<Rightarrow> 'a list" where
  "insertBy cmp x [] = [x]"
| "insertBy cmp x (y # ys) = (if cmp x y \<le> 0 then x # y # ys else y # insertBy cmp x ys)"

definition sortBy :: "('a \<Rightarrow> 'a \<Rightarrow> real) \<Rightarrow> 'a list \<Rightarrow> 'a list" where
  "sortBy cmp xs = foldr (insertBy cmp) xs []"

definition array_sort :: "heap \<Rightarrow> addr \<Rightarrow> (video_clip \<Rightarrow> video_clip \<Rightarrow> real) \<Rightarrow> heap \<times> addr" where
  "array_sort h a cmp = (h[a := sortBy cmp (h ! a)], a)"

section \<open>The backend (services/geminiService.ts)\<close>

text \<open>
  What a call of \<^verbatim>\<open>generateContent\<close> followed by \<^verbatim>\<open>JSON.parse\<close> of its text
  can do: the call throws, the answer has no text, the text does not parse to an array,
  or an array is parsed.  An answer of \<^verbatim>\<open>embedContent\<close> may lack \<^verbatim>\<open>embedding\<close> or
  \<^verbatim>\<open>embedding.values\<close>.
\<close>

datatype 'a response = Throws | NoText | Unparsable | Parsed 'a

datatype embed_response = EmbedThrows | EmbedResult "real list option option"

definition try_catch :: "error + 'a \<Rightarrow> (error \<Rightarrow> error + 'a) \<Rightarrow> error + 'a" where
  "try_catch body handler = (case body of Inl e \<Rightarrow> handler e | Inr v \<Rightarrow> Inr v)"

text \<open>
  The callback of \<^verbatim>\<open>rawClips.map\<close>: the candidate's own properties, an id made of
  the clock and the index, and the two clamped times.
\<close>

definition clipOfRaw :: "(nat \<Rightarrow> nat) \<Rightarrow> real \<Rightarrow> nat \<times> raw_clip \<Rightarrow> video_clip" where
  "clipOfRaw dateNow videoDuration ic =
     (case ic of (index, clip) \<Rightarrow>
        \<lparr>id = ''clip-'' @ toString (dateNow index) @ ''-'' @ toString index,
         startTime = max 0 (rawStartTime clip),
         endTime = min videoDuration (rawEndTime clip),
         title = rawTitle clip,
         summary = rawSummary clip,
         viralityScore = rawViralityScore clip,
         reasoning = rawReasoning clip,
         tags = rawTags clip,
         transcriptStub = rawTranscriptStub clip,
         embedding = None,
         score = None\<rparr>)"

definition analyzeVideoFrames ::
  "(video_frame list \<Rightarrow> real \<Rightarrow> raw_clip list response) \<Rightarrow> (nat \<Rightarrow> nat) \<Rightarrow>
   video_frame list \<Rightarrow> real \<Rightarrow> error + video_clip list" where
  "analyzeVideoFrames backend dateNow frames videoDuration =
     try_catch
       (case backend frames videoDuration of
          Throws \<Rightarrow> Inl BackendError
        | NoText \<Rightarrow> Inl NoResponse
        | Unparsable \<Rightarrow> Inl SyntaxError
        | Parsed rawClips \<Rightarrow> Inr (map (clipOfRaw dateNow videoDuration) (enumerate 0 rawClips)))
       (\<lambda>error. Inl error)"

definition generateTranscript ::
  "(string \<Rightarrow> transcript_segment list response) \<Rightarrow> string \<Rightarrow>
   error + transcript_segment list" where
  "generateTranscript backend audioBase64 =
     try_catch
       (case backend audioBase64 of
          Throws \<Rightarrow> Inl BackendError
        | NoText \<Rightarrow> Inr []
        | Unparsable \<Rightarrow> Inl SyntaxError
        | Parsed segments \<Rightarrow> Inr segments)
       (\<lambda>error. Inr [])"

definition generateEmbedding :: "(string \<Rightarrow> embed_response) \<Rightarrow> string \<Rightarrow> error + real list" where
  "generateEmbedding backend text =
     try_catch
       (case backend text of
          EmbedThrows \<Rightarrow> Inl BackendError
        | EmbedResult None \<Rightarrow> Inr []
        | EmbedResult (Some None) \<Rightarrow> Inr []
        | EmbedResult (Some (Some values)) \<Rightarrow> Inr values)
       (\<lambda>error. Inr [])"

definition extractAudio :: "video_file \<Rightarrow> error + string" where
  "extractAudio file = audioTrack file"

section \<open>Vector similarity (utils/vectorUtils.ts)\<close>

text \<open>
  Modelled from the spec: utils/vectorUtils.ts, from which App.tsx imports
  \<^verbatim>\<open>cosineSimilarity\<close>, is not among the sources.  The specification defines the
  similarity as \<open>dot(a,b) / (\<parallel>a\<parallel> \<cdot> \<parallel>b\<parallel>)\<close>, and as 0 if either vector is empty or
  either norm is zero.  This is the dot product, over the common length.
\<close>

definition dot :: "real list \<Rightarrow> real list \<Rightarrow> real" where
  "dot a b = sum_list (map (\<lambda>(x, y). x * y) (zip a b))"

text \<open>Modelled from the spec: the norm \<open>\<parallel>a\<parallel>\<close> of the same missing file.\<close>

definition magnitude :: "real list \<Rightarrow> real" where
  "magnitude a = sqrt (dot a a)"

text \<open>
  Modelled from the spec: \<^verbatim>\<open>cosineSimilarity\<close> of the same missing file, with the
  specification's cases for an empty vector and a zero norm.
\<close>

definition cosineSimilarity :: "real list \<Rightarrow> real list \<Rightarrow> real" where
  "cosineSimilarity a b =
     (if a = [] \<or> b = [] \<or> magnitude a = 0 \<or> magnitude b = 0 then 0
      else dot a b / (magnitude a * magnitude b))"

section \<open>The application state and its handlers (App.tsx)\<close>

definition MOCK_COMMENTS :: "string list" where
  "MOCK_COMMENTS =
     [''This is exactly what I was looking for! simple and clean.'',
      ''The editing at 0:15 is insane, how did you do that?'',
      ''Can you make a version of this for mobile aspect ratio?'',
      ''I disagree with the point about timing, but great video overall.'',
      ''Subscribed! eager to see more.'',
      ''What camera was this shot on?'',
      ''The audio levels are a bit low in the middle section.'',
      ''Make part 2 please!'',
      ''Viral material right here.'',
      ''Algorithm brought me here and I'm not disappointed.'']"

text \<open>
  The state variables of \<^verbatim>\<open>App\<close> that the handlers below read or write.  The
  variables \<open>clips\<close> and \<open>filteredClips\<close> hold arrays, that is addresses of the store.
  The variable \<^verbatim>\<open>file\<close> is \<open>file'\<close> here.
  The progress indicator, the playback time and the download flag play no part in the
  handlers' results and are left out.
\<close>

record app =
  appState :: AppState
  file' :: "video_file option"
  clips :: addr
  activeClip :: "video_clip option"
  transcript :: "transcript_segment list"
  searchQuery :: string
  isSearching :: bool
  filteredClips :: addr
  sortOrder :: sort_order
  activeSidebarTab :: sidebar_tab
  comments :: "string list"
  commentAnalysis :: "comment_analysis option"

text \<open>
  What the services outside the program answer during one run: the visual analysis for
  the frames and the duration, the transcription for the audio, the embedding call for
  the clip at an index and its text, and the clock at the callback for an index.
\<close>

record env =
  visualBackend :: "video_frame list \<Rightarrow> real \<Rightarrow> raw_clip list response"
  transcriptBackend :: "string \<Rightarrow> transcript_segment list response"
  embedBackend :: "nat \<Rightarrow> string \<Rightarrow> embed_response"
  dateNow :: "nat \<Rightarrow> nat"

definition sortClips :: "heap \<Rightarrow> addr \<Rightarrow> sort_order \<Rightarrow> heap \<times> addr" where
  "sortClips h list order =
     (let (h1, sortedCopy) = array_copy h list
      in if order = Viral
         then array_sort h1 sortedCopy (\<lambda>a b. viralityScore b - viralityScore a)
         else array_sort h1 sortedCopy (\<lambda>a b. startTime a - startTime b))"

text \<open>
  \<^verbatim>\<open>Promise.all\<close> over the per-clip tasks: the array of the results in the order of
  the tasks, or the rejection of a task that rejects.
\<close>

fun promise_all :: "(error + 'a) list \<Rightarrow> error + 'a list" where
  "promise_all [] = Inr []"
| "promise_all (p # ps) =
     (case p of
        Inl e \<Rightarrow> Inl e
      | Inr v \<Rightarrow> (case promise_all ps of Inl e \<Rightarrow> Inl e | Inr vs \<Rightarrow> Inr (v # vs)))"

definition textToEmbed :: "video_clip \<Rightarrow> string" where
  "textToEmbed clip =
     title clip @ '' '' @ summary clip @ '' '' @ join '' '' (tags clip) @ '' '' @ reasoning clip"

definition embedClip :: "env \<Rightarrow> nat \<times> video_clip \<Rightarrow> error + video_clip" where
  "embedClip e ic =
     (case ic of (index, clip) \<Rightarrow>
        (case generateEmbedding (embedBackend e index) (textToEmbed clip) of
           Inl err \<Rightarrow> Inl err
         | Inr vec \<Rightarrow> Inr (clip\<lparr>embedding := Some vec\<rparr>)))"

text \<open>
  The inner \<^verbatim>\<open>try\<close> of step 3: the transcript is stored only if neither the audio
  extraction nor the transcription throws.
\<close>

definition transcribe :: "env \<Rightarrow> video_file \<Rightarrow> app \<Rightarrow> app" where
  "transcribe e selectedFile s =
     (case extractAudio selectedFile of
        Inl err \<Rightarrow> s
      | Inr audioBase64 \<Rightarrow>
          (case generateTranscript (transcriptBackend e) audioBase64 of
             Inl err \<Rightarrow> s
           | Inr generatedTranscript \<Rightarrow> s\<lparr>transcript := generatedTranscript\<rparr>))"

definition handleFileSelect :: "env \<Rightarrow> video_file \<Rightarrow> upload_source \<Rightarrow> heap \<times> app \<Rightarrow> heap \<times> app" where
  "handleFileSelect e selectedFile source hs =
     (case hs of (h, s) \<Rightarrow>
       (let (h0, noClips) = array_new h [];
            s0 = s\<lparr>file' := Some selectedFile, appState := PROCESSING,
                   clips := noClips, activeClip := None, transcript := [],
                   commentAnalysis := None,
                   comments := (if source = Youtube then MOCK_COMMENTS else [])\<rparr>
        in (case extractFramesFromVideo selectedFile 4 45 of
              Inl err \<Rightarrow> (h0, s0\<lparr>appState := ERROR\<rparr>)
            | Inr frames \<Rightarrow>
               (let s1 = s0\<lparr>appState := ANALYZING\<rparr>;
                    duration = fileDuration selectedFile
                in (case analyzeVideoFrames (visualBackend e) (dateNow e) frames duration of
                      Inl err \<Rightarrow> (h0, s1\<lparr>appState := ERROR\<rparr>)
                    | Inr generatedClips \<Rightarrow>
                       (let s2 = transcribe e selectedFile s1
                        in (case promise_all (map (embedClip e) (enumerate 0 generatedClips)) of
                              Inl err \<Rightarrow> (h0, s2\<lparr>appState := ERROR\<rparr>)
                            | Inr embedded \<Rightarrow>
                               (let (h1, clipsWithEmbeddings) = array_new h0 embedded;
                                    (h2, sortedClips) =
                                      sortClips h1 clipsWithEmbeddings (sortOrder s2);
                                    s3 = s2\<lparr>clips := sortedClips, filteredClips := sortedClips\<rparr>;
                                    s4 = (if length (h2 ! sortedClips) > 0
                                          then s3\<lparr>activeClip := Some (h2 ! sortedClips ! 0)\<rparr>
                                          else s3)
                                in (h2, s4\<lparr>appState := READY\<rparr>)))))))))"

text \<open>
  The three callbacks of \<^verbatim>\<open>handleSearch\<close>, in the order of the source.  The second
  and the third read the score that the first has set; on a clip without a score
  JavaScript's sum is not a number and the comparison with the threshold is false.
\<close>

definition scoreClip :: "real list \<Rightarrow> video_clip \<Rightarrow> video_clip" where
  "scoreClip queryEmbedding clip =
     clip\<lparr>score := Some (case embedding clip of
                           Some e \<Rightarrow> cosineSimilarity queryEmbedding e
                         | None \<Rightarrow> 0)\<rparr>"

definition boostClip :: "string \<Rightarrow> transcript_segment list \<Rightarrow> video_clip \<Rightarrow> video_clip" where
  "boostClip queryLower matchingTranscriptSegments clip =
     (let hasTranscriptMatch = list_ex (\<lambda>seg.
            (segStartTime seg \<ge> startTime clip \<and> segStartTime seg < endTime clip) \<or>
            (segEndTime seg > startTime clip \<and> segEndTime seg \<le> endTime clip) \<or>
            (startTime clip \<ge> segStartTime seg \<and> endTime clip \<le> segEndTime seg))
            matchingTranscriptSegments;
          hasStubMatch = includes' (toLowerCase (transcriptStub clip)) queryLower
      in if hasTranscriptMatch \<or> hasStubMatch
         then clip\<lparr>score := map_option (\<lambda>v. v + 0.5) (score clip)\<rparr>
         else clip)"

definition keepClip :: "string \<Rightarrow> video_clip \<Rightarrow> bool" where
  "keepClip queryLower c =
     (let threshold = 0.3
      in (case score c of Some v \<Rightarrow> v > threshold | None \<Rightarrow> False) \<or>
         includes' (toLowerCase (transcriptStub c)) queryLower)"

text \<open>
  The \<^verbatim>\<open>catch\<close> block of \<^verbatim>\<open>handleSearch\<close>, under the comment
  \<^verbatim>\<open>// Fallback\<close>: the stored clips whose \<open>transcriptStub\<close> contains the query,
  sorted.
\<close>

definition searchFallback :: "heap \<times> app \<Rightarrow> heap \<times> app" where
  "searchFallback hs =
     (case hs of (h, s) \<Rightarrow>
       (let queryLower = toLowerCase (searchQuery s);
            (h1, matchedClips) =
              array_filter h (clips s)
                (\<lambda>clip. includes' (toLowerCase (transcriptStub clip)) queryLower);
            (h2, sortedMatches) = sortClips h1 matchedClips (sortOrder s)
        in (h2, s\<lparr>filteredClips := sortedMatches, isSearching := False\<rparr>)))"

text \<open>
  The handler returns early for a query that trims to the empty string.  The branch
  \<open>Inl\<close> is the \<^verbatim>\<open>catch\<close> block.
\<close>

definition handleSearch :: "(string \<Rightarrow> embed_response) \<Rightarrow> heap \<times> app \<Rightarrow> heap \<times> app" where
  "handleSearch backend hs =
     (case hs of (h, s) \<Rightarrow>
       (if trim (searchQuery s) = []
        then (let (h1, sortedAll) = sortClips h (clips s) (sortOrder s)
              in (h1, s\<lparr>filteredClips := sortedAll\<rparr>))
        else
          (case generateEmbedding backend (searchQuery s) of
             Inr queryEmbedding \<Rightarrow>
              (let (h1, matchedClips) = array_map h (clips s) (scoreClip queryEmbedding);
                   queryLower = toLowerCase (searchQuery s);
                   matchingTranscriptSegments =
                     filter (\<lambda>seg. includes' (toLowerCase (segText seg)) queryLower)
                       (transcript s);
                   (h2, boostedClips) =
                     array_map h1 matchedClips (boostClip queryLower matchingTranscriptSegments);
                   (h3, finalFiltered) = array_filter h2 boostedClips (keepClip queryLower);
                   (h4, finalClips) = sortClips h3 finalFiltered (sortOrder s)
               in (h4, s\<lparr>filteredClips := finalClips, activeSidebarTab := ClipsTab,
                          isSearching := False\<rparr>))
           | Inl err \<Rightarrow> searchFallback (h, s))))"

section \<open>Observations on a result\<close>

text \<open>
  The comparator that \<open>sortClips\<close> hands to \<^verbatim>\<open>sort\<close> for a sort order, the array a
  call of \<open>sortClips\<close> returns, the arrays the state variables \<open>clips\<close> and
  \<open>filteredClips\<close> refer to, and the vector \<open>generateEmbedding\<close> yields for the clip
  at an index.
\<close>

definition comparator :: "sort_order \<Rightarrow> video_clip \<Rightarrow> video_clip \<Rightarrow> real" where
  "comparator order =
     (if order = Viral then (\<lambda>a b. viralityScore b - viralityScore a)
      else (\<lambda>a b. startTime a - startTime b))"

definition sortedArray :: "heap \<times> addr \<Rightarrow> video_clip list" where
  "sortedArray ha = fst ha ! snd ha"

definition storedClips :: "heap \<times> app \<Rightarrow> video_clip list" where
  "storedClips hs = fst hs ! clips (snd hs)"

definition shownClips :: "heap \<times> app \<Rightarrow> video_clip list" where
  "shownClips hs = fst hs ! filteredClips (snd hs)"

text \<open>
  The array a search allocates second: the value of \<^verbatim>\<open>matchedClips\<close> after the
  boosting \<^verbatim>\<open>map\<close>, when the search started from the store \<open>h\<close>.
\<close>

definition rankedClips :: "heap \<Rightarrow> heap \<times> app \<Rightarrow> video_clip list" where
  "rankedClips h hs = fst hs ! Suc (length h)"

definition embeddingOf :: "env \<Rightarrow> nat \<Rightarrow> video_clip \<Rightarrow> real list" where
  "embeddingOf e index clip =
     (case embedBackend e index (textToEmbed clip) of
        EmbedResult (Some (Some values)) \<Rightarrow> values
      | _ \<Rightarrow> [])"

section \<open>Example inputs\<close>

definition sampleVideo :: video_file where
  "sampleVideo =
     \<lparr>fileName = ''talk.mp4'', fileDuration = 10, frameData = (\<lambda>t. ''img''),
      decodeError = None, audioTrack = Inr ''uQ''\<rparr>"

definition clock :: "nat \<Rightarrow> nat" where
  "clock index = 1700000000000"

definition demoClip :: "nat \<Rightarrow> real \<Rightarrow> real \<Rightarrow> real \<Rightarrow> string \<Rightarrow> video_clip" where
  "demoClip index start stop virality stub =
     \<lparr>id = ''clip-1700000000000-'' @ toString index, startTime = start, endTime = stop,
      title = ''Title'', summary = ''Summary'', viralityScore = virality,
      reasoning = ''Reasoning'', tags = [''tag''], transcriptStub = stub,
      embedding = None, score = None\<rparr>"

definition viralityExample :: "video_clip list" where
  "viralityExample =
     [demoClip 0 0 10 90 ''a'', demoClip 1 10 20 40 ''b'', demoClip 2 20 30 90 ''c'']"

definition failingBackend :: "string \<Rightarrow> embed_response" where
  "failingBackend text = EmbedThrows"

definition unitBackend :: "string \<Rightarrow> embed_response" where
  "unitBackend text = EmbedResult (Some (Some [1, 0]))"

definition demoState :: "string \<Rightarrow> transcript_segment list \<Rightarrow> app" where
  "demoState query segments =
     \<lparr>appState = READY, file' = None, clips = 0, activeClip = None,
      transcript = segments, searchQuery = query, isSearching = False, filteredClips = 0,
      sortOrder = Time, activeSidebarTab = TranscriptTab, comments = [],
      commentAnalysis = None\<rparr>"

definition launchSegment :: transcript_segment where
  "launchSegment = \<lparr>segStartTime = 10, segEndTime = 20, segText = ''Launch''\<rparr>"

definition countdownClip :: video_clip where
  "countdownClip = demoClip 0 5 15 80 ''countdown''"

definition launchClips :: "video_clip list" where
  "launchClips =
     [countdownClip, demoClip 1 30 40 70 ''We launch today'', demoClip 2 50 60 60 ''outro'']"

definition plainClip :: video_clip where
  "plainClip = demoClip 0 5 15 80 ''ab''"

definition phraseClips :: "video_clip list" where
  "phraseClips =
     [(demoClip 0 0 10 50 ''exact phrase here'')\<lparr>embedding := Some [0, 0]\<rparr>,
      (demoClip 1 10 20 50 ''something else'')\<lparr>embedding := Some [0, 0]\<rparr>]"

definition lateRaw :: raw_clip where
  "lateRaw =
     \<lparr>rawStartTime = 10, rawEndTime = 25, rawTitle = ''Title'', rawSummary = ''Summary'',
      rawViralityScore = 80, rawReasoning = ''Reasoning'', rawTags = [''tag''],
      rawTranscriptStub = ''credits''\<rparr>"

definition lateClip :: video_clip where
  "lateClip = demoClip 0 10 10 80 ''credits''"

definition earlyRaw :: raw_clip where
  "earlyRaw =
     \<lparr>rawStartTime = - 5, rawEndTime = 4, rawTitle = ''Title'', rawSummary = ''Summary'',
      rawViralityScore = 60, rawReasoning = ''Reasoning'', rawTags = [''tag''],
      rawTranscriptStub = ''intro''\<rparr>"

definition visualAnswer :: "raw_clip list response \<Rightarrow> video_frame list \<Rightarrow> real \<Rightarrow> raw_clip list response" where
  "visualAnswer answer frames videoDuration = answer"

definition demoEnv :: "raw_clip list response \<Rightarrow> env" where
  "demoEnv answer =
     \<lparr>visualBackend = visualAnswer answer,
      transcriptBackend = (\<lambda>audio. Throws),
      embedBackend = (\<lambda>index text. if index = 1 then EmbedThrows
                                     else EmbedResult (Some (Some [1, 0]))),
      dateNow = clock\<rparr>"

definition initialApp :: app where
  "initialApp =
     \<lparr>appState = IDLE, file' = None, clips = 0, activeClip = None,
      transcript = [], searchQuery = [], isSearching = False, filteredClips = 1,
      sortOrder = Time, activeSidebarTab = ClipsTab, comments = [],
      commentAnalysis = None\<rparr>"

definition outroSegment :: transcript_segment where
  "outroSegment = \<lparr>segStartTime = 50, segEndTime = 60, segText = ''Outro music''\<rparr>"

definition spacedClip :: video_clip where
  "spacedClip = (demoClip 1 30 40 70 ''We launch today'')\<lparr>embedding := Some [1, 0]\<rparr>"

definition rankingClips :: "video_clip list" where
  "rankingClips =
     [(demoClip 0 5 15 80 ''countdown'')\<lparr>embedding := Some [0, 1]\<rparr>,
      (demoClip 1 30 40 70 ''We launch today'')\<lparr>embedding := Some [0, 1]\<rparr>,
      (demoClip 2 50 60 60 ''credits'')\<lparr>embedding := Some [0, 1]\<rparr>]"

definition overlapRaw :: raw_clip where
  "overlapRaw =
     \<lparr>rawStartTime = 2, rawEndTime = 8, rawTitle = ''Title'', rawSummary = ''Summary'',
      rawViralityScore = 80, rawReasoning = ''Reasoning'', rawTags = [''tag''],
      rawTranscriptStub = ''countdown''\<rparr>"

definition earlySegment :: transcript_segment where
  "earlySegment = \<lparr>segStartTime = 4, segEndTime = 6, segText = ''Launch''\<rparr>"

definition sessionEnv :: env where
  "sessionEnv =
     \<lparr>visualBackend = visualAnswer (Parsed [overlapRaw]),
      transcriptBackend = (\<lambda>audio. Parsed [earlySegment]),
      embedBackend = (\<lambda>index text. EmbedResult (Some (Some [1, 0]))),
      dateNow = clock\<rparr>"

definition session :: "heap \<times> app" where
  "session = handleFileSelect sessionEnv sampleVideo Upload ([[], []], initialApp)"

definition sessionClip :: video_clip where
  "sessionClip = (demoClip 0 2 8 80 ''countdown'')\<lparr>embedding := Some [1, 0]\<rparr>"

text \<open>The user types a query into the search box of a session.\<close>

definition withQuery :: "string \<Rightarrow> heap \<times> app \<Rightarrow> heap \<times> app" where
  "withQuery query hs = (fst hs, (snd hs)\<lparr>searchQuery := query\<rparr>)"

definition sampleFrames :: "video_frame list" where
  "sampleFrames =
     [\<lparr>timestamp = 0, data = ''img''\<rparr>, \<lparr>timestamp = 4, data = ''img''\<rparr>,
      \<lparr>timestamp = 8, data = ''img''\<rparr>]"


section \<open>The sampling schedule\<close>

lemma captureFrame_prefix: "\<exists>ys. captureFrame vf iv m t frames = frames @ ys"
proof (induction vf iv m t frames rule: captureFrame.induct)
  case (1 vf iv m t frames)
  show ?case
  proof (cases "t \<ge> fileDuration vf \<or> length frames \<ge> m")
    case True
    then show ?thesis by (simp add: captureFrame.simps)
  next
    case False
    from "1.IH"[OF False] obtain ys where
      "captureFrame vf iv m (t + iv) (frames @ [\<lparr>timestamp = t, data = frameData vf t\<rparr>]) =
        (frames @ [\<lparr>timestamp = t, data = frameData vf t\<rparr>]) @ ys" by blast
    then show ?thesis using False by (simp add: captureFrame.simps[of vf iv m t frames])
  qed
qed

lemma captureFrame_first:
  assumes "0 < fileDuration vf" "0 < m"
  shows "\<exists>ys. captureFrame vf iv m 0 [] = \<lparr>timestamp = 0, data = frameData vf 0\<rparr> # ys"
proof -
  obtain ys where
    "captureFrame vf iv m (0 + iv) ([] @ [\<lparr>timestamp = 0, data = frameData vf 0\<rparr>]) =
       ([] @ [\<lparr>timestamp = 0, data = frameData vf 0\<rparr>]) @ ys"
    using captureFrame_prefix by blast
  then show ?thesis using assms by (simp add: captureFrame.simps[of vf iv m 0 "[]"])
qed

text \<open>
  The loop invariant: the frames taken so far are strictly increasing, lie in
  \<open>[0, duration)\<close> and before the current time, and are at most \<open>maxFrames\<close>.
\<close>

lemma captureFrame_inv:
  "0 < iv \<Longrightarrow> sorted_wrt (<) (map timestamp frames) \<Longrightarrow>
   (\<forall>x\<in>set frames. 0 \<le> timestamp x \<and> timestamp x < t \<and> timestamp x < fileDuration vf) \<Longrightarrow>
   0 \<le> t \<Longrightarrow> length frames \<le> m \<Longrightarrow>
   sorted_wrt (<) (map timestamp (captureFrame vf iv m t frames)) \<and>
   (\<forall>x\<in>set (captureFrame vf iv m t frames). 0 \<le> timestamp x \<and> timestamp x < fileDuration vf) \<and>
   length (captureFrame vf iv m t frames) \<le> m"
proof (induction vf iv m t frames rule: captureFrame.induct)
  case (1 vf iv m t frames)
  show ?case
  proof (cases "t \<ge> fileDuration vf \<or> length frames \<ge> m")
    case True
    with "1.prems" show ?thesis by (simp add: captureFrame.simps)
  next
    case False
    let ?fr = "frames @ [\<lparr>timestamp = t, data = frameData vf t\<rparr>]"
    have a: "sorted_wrt (<) (map timestamp ?fr)"
      using "1.prems" by (auto simp: sorted_wrt_append)
    have b: "\<forall>x\<in>set ?fr. 0 \<le> timestamp x \<and> timestamp x < t + iv \<and> timestamp x < fileDuration vf"
      using "1.prems" False by auto
    have c: "0 \<le> t + iv" using "1.prems" by simp
    have d: "length ?fr \<le> m" using False by simp
    from "1.IH"[OF False "1.prems"(1) a b c d]
    show ?thesis using False by (simp add: captureFrame.simps[of vf iv m t frames])
  qed
qed

text \<open>
  C2.  For a video of positive duration that loads and a positive frame limit, whatever
  the base interval, \<open>extractFramesFromVideo\<close> returns frames whose timestamps are at
  most \<open>maxFrames\<close> many, lie in \<open>[0, duration)\<close>, are strictly increasing, and start
  at 0.
\<close>

theorem sampling_schedule:
  assumes "0 < fileDuration vf" and "0 < maxFrames" and "decodeError vf = None"
  shows "\<exists>frames. extractFramesFromVideo vf intervalSeconds maxFrames = Inr frames \<and>
     length frames \<le> maxFrames \<and>
     (\<forall>x\<in>set frames. 0 \<le> timestamp x \<and> timestamp x < fileDuration vf) \<and>
     sorted_wrt (<) (map timestamp frames) \<and>
     frames \<noteq> [] \<and> timestamp (hd frames) = 0"
proof -
  let ?iv = "max intervalSeconds (fileDuration vf / real maxFrames)"
  have pos: "0 < ?iv" using assms by (simp add: less_max_iff_disj)
  have inv: "sorted_wrt (<) (map timestamp (captureFrame vf ?iv maxFrames 0 [])) \<and>
   (\<forall>x\<in>set (captureFrame vf ?iv maxFrames 0 []). 0 \<le> timestamp x \<and> timestamp x < fileDuration vf) \<and>
   length (captureFrame vf ?iv maxFrames 0 []) \<le> maxFrames"
    by (rule captureFrame_inv[OF pos]) simp_all
  obtain ys where "captureFrame vf ?iv maxFrames 0 [] = \<lparr>timestamp = 0, data = frameData vf 0\<rparr> # ys"
    using captureFrame_first[OF assms(1,2)] by blast
  with inv show ?thesis using assms(3) by (simp add: extractFramesFromVideo_def Let_def)
qed

theorem sampling_schedule_witness:
  "0 < fileDuration sampleVideo \<and> 0 < (45::nat) \<and> decodeError sampleVideo = None \<and>
   (\<exists>frames. extractFramesFromVideo sampleVideo 4 45 = Inr frames \<and>
     length frames \<le> 45 \<and>
     (\<forall>x\<in>set frames. 0 \<le> timestamp x \<and> timestamp x < fileDuration sampleVideo) \<and>
     sorted_wrt (<) (map timestamp frames) \<and>
     frames \<noteq> [] \<and> timestamp (hd frames) = 0)"
  using sampling_schedule [of sampleVideo 45 4] by (simp add: sampleVideo_def)

section \<open>Facts about the string functions\<close>

lemma char_of_eval:
  "char_of (numeral k :: nat) =
     Char (odd (numeral k :: nat)) (odd (numeral k div 2 :: nat)) (odd (numeral k div 4 :: nat))
       (odd (numeral k div 8 :: nat)) (odd (numeral k div 16 :: nat))
       (odd (numeral k div 32 :: nat)) (odd (numeral k div 64 :: nat))
       (odd (numeral k div 128 :: nat))"
  by (simp add: char_of_def bit_iff_odd_drop_bit drop_bit_eq_div)

lemma toString_digits:
  "toString 0 = ''0''" "toString 1 = ''1''" "toString 2 = ''2''"
  "toString 1700000000000 = ''1700000000000''"
  by (simp_all add: toString.simps char_of_eval)

lemmas string_eval =
  toLowerCase_def toLowerChar_def char_of_eval trim_def isWhiteSpace_def

text \<open>
  The no-break space is white space, and the capital letters beyond Z are lower-cased:
  capital E with acute (201) becomes the small one (233), the multiplication sign (215)
  stays.
\<close>

lemma latin1_strings:
  "trim [char_of (160 :: nat)] = []"
  "toLowerCase [char_of (201 :: nat)] = [char_of (233 :: nat)]"
  "toLowerCase [char_of (215 :: nat)] = [char_of (215 :: nat)]"
  by (simp_all add: string_eval)

text \<open>
  What the string functions compute: \<open>includes'\<close> is the substring test, and a string
  trims to the empty string exactly if all its characters are white space.
\<close>

lemma startsWith_iff: "startsWith s q \<longleftrightarrow> (\<exists>r. s = q @ r)"
  by (induction s q rule: startsWith.induct) auto

lemma includes'_iff: "includes' s q \<longleftrightarrow> (\<exists>p r. s = p @ q @ r)"
proof (induction s)
  case Nil
  show ?case by simp
next
  case (Cons c cs)
  note IH = Cons.IH
  show ?case
  proof
    assume "includes' (c # cs) q"
    then consider "startsWith (c # cs) q" | "includes' cs q" by auto
    then show "\<exists>p r. c # cs = p @ q @ r"
    proof cases
      case 1
      then obtain r where "c # cs = q @ r" unfolding startsWith_iff by blast
      then have "c # cs = [] @ q @ r" by simp
      then show ?thesis by blast
    next
      case 2
      then obtain p r where "cs = p @ q @ r" using IH by blast
      then have "c # cs = (c # p) @ q @ r" by simp
      then show ?thesis by blast
    qed
  next
    assume "\<exists>p r. c # cs = p @ q @ r"
    then obtain p r where e: "c # cs = p @ q @ r" by blast
    show "includes' (c # cs) q"
    proof (cases p)
      case Nil
      with e have "c # cs = q @ r" by simp
      then have "startsWith (c # cs) q" unfolding startsWith_iff by blast
      then show ?thesis by simp
    next
      case (Cons a p')
      with e have "cs = p' @ q @ r" by simp
      then have "includes' cs q" using IH by blast
      then show ?thesis by simp
    qed
  qed
qed

lemma dropWhile_Nil_iff: "dropWhile P xs = [] \<longleftrightarrow> (\<forall>x \<in> set xs. P x)"
  by (induction xs) auto

lemma trim_Nil_iff: "trim s = [] \<longleftrightarrow> (\<forall>c \<in> set s. isWhiteSpace c)"
proof -
  have a: "trim s = [] \<longleftrightarrow> (\<forall>c \<in> set (dropWhile isWhiteSpace s). isWhiteSpace c)"
    by (simp add: trim_def dropWhile_Nil_iff)
  have b: "(\<forall>c \<in> set (dropWhile isWhiteSpace s). isWhiteSpace c) \<longleftrightarrow> dropWhile isWhiteSpace s = []"
  proof
    assume all: "\<forall>c \<in> set (dropWhile isWhiteSpace s). isWhiteSpace c"
    show "dropWhile isWhiteSpace s = []"
    proof (rule ccontr)
      assume ne: "dropWhile isWhiteSpace s \<noteq> []"
      then have "\<not> isWhiteSpace (hd (dropWhile isWhiteSpace s))" by (rule hd_dropWhile)
      moreover have "hd (dropWhile isWhiteSpace s) \<in> set (dropWhile isWhiteSpace s)"
        using ne by simp
      ultimately show False using all by blast
    qed
  next
    assume "dropWhile isWhiteSpace s = []"
    then show "\<forall>c \<in> set (dropWhile isWhiteSpace s). isWhiteSpace c"
      by (auto dest: set_dropWhileD)
  qed
  from a b dropWhile_Nil_iff [of isWhiteSpace s] show ?thesis by blast
qed

section \<open>Arrays and sorting\<close>

lemma sortClips_eq:
  "sortClips h list order = (h @ [sortBy (comparator order) (h ! list)], length h)"
  by (simp add: sortClips_def array_copy_def array_new_def array_sort_def comparator_def)

lemma sortedArray_sortClips:
  "sortedArray (sortClips h list order) = sortBy (comparator order) (h ! list)"
  by (simp add: sortedArray_def sortClips_eq)

text \<open>With these two comparators the insertion is the library's insertion by a key.\<close>

lemma insertBy_time:
  "insertBy (\<lambda>a b. startTime a - startTime b) x ys = insort_key startTime x ys"
  by (induction ys) auto

lemma insertBy_viral:
  "insertBy (\<lambda>a b. viralityScore b - viralityScore a) x ys =
     insort_key (\<lambda>c. - viralityScore c) x ys"
  by (induction ys) auto

lemma sortBy_time: "sortBy (\<lambda>a b. startTime a - startTime b) xs = sort_key startTime xs"
  by (induction xs) (simp_all add: sortBy_def insertBy_time)

lemma sortBy_viral:
  "sortBy (\<lambda>a b. viralityScore b - viralityScore a) xs =
     sort_key (\<lambda>c. - viralityScore c) xs"
  by (induction xs) (simp_all add: sortBy_def insertBy_viral)

lemma mset_sortBy: "mset (sortBy (comparator order) xs) = mset xs"
  by (cases order) (simp_all add: comparator_def sortBy_time sortBy_viral)

text \<open>
  C8.  \<open>sortClips\<close> returns a rearrangement of the array it is given.  By time the result
  ascends in \<open>startTime\<close>, by virality it descends in \<open>viralityScore\<close>, and in both
  orders the clips of equal key keep the order they had in the input.  Clips with the
  virality scores 90, 40, 90 come out as first, third, second.
\<close>

theorem sortClips_sorted_stable:
  "mset (sortedArray (sortClips h list order)) = mset (h ! list) \<and>
   sorted_wrt (\<lambda>a b. startTime a \<le> startTime b) (sortedArray (sortClips h list Time)) \<and>
   (\<forall>k. filter (\<lambda>c. startTime c = k) (sortedArray (sortClips h list Time)) =
        filter (\<lambda>c. startTime c = k) (h ! list)) \<and>
   sorted_wrt (\<lambda>a b. viralityScore a \<ge> viralityScore b)
     (sortedArray (sortClips h list Viral)) \<and>
   (\<forall>k. filter (\<lambda>c. viralityScore c = k) (sortedArray (sortClips h list Viral)) =
        filter (\<lambda>c. viralityScore c = k) (h ! list)) \<and>
   sortedArray (sortClips [viralityExample] 0 Viral) =
     [viralityExample ! 0, viralityExample ! 2, viralityExample ! 1]"
proof -
  have perm: "mset (sortedArray (sortClips h list order)) = mset (h ! list)"
    by (simp add: sortedArray_sortClips mset_sortBy)
  have t1: "sorted_wrt (\<lambda>a b. startTime a \<le> startTime b) (sortedArray (sortClips h list Time))"
    using sorted_sort_key[of startTime "h ! list"]
    by (simp add: sortedArray_sortClips comparator_def sortBy_time sorted_map)
  have t2: "filter (\<lambda>c. startTime c = k) (sortedArray (sortClips h list Time)) =
        filter (\<lambda>c. startTime c = k) (h ! list)" for k
    by (simp add: sortedArray_sortClips comparator_def sortBy_time sort_key_stable)
  have v1: "sorted_wrt (\<lambda>a b. viralityScore a \<ge> viralityScore b)
      (sortedArray (sortClips h list Viral))"
    using sorted_sort_key[of "\<lambda>c. - viralityScore c" "h ! list"]
    by (simp add: sortedArray_sortClips comparator_def sortBy_viral sorted_map)
  have v2: "filter (\<lambda>c. viralityScore c = k) (sortedArray (sortClips h list Viral)) =
        filter (\<lambda>c. viralityScore c = k) (h ! list)" for k
    using sort_key_stable[of "\<lambda>c. - viralityScore c" "- k" "h ! list"]
    by (simp add: sortedArray_sortClips comparator_def sortBy_viral)
  have ex: "sortedArray (sortClips [viralityExample] 0 Viral) =
     [viralityExample ! 0, viralityExample ! 2, viralityExample ! 1]"
    by (simp add: sortedArray_sortClips comparator_def sortBy_def viralityExample_def
          demoClip_def)
  from perm t1 t2 v1 v2 ex show ?thesis by blast
qed

section \<open>Visual analysis\<close>

lemma analyzeVideoFrames_Parsed:
  "backend frames d = Parsed rawClips \<Longrightarrow>
   analyzeVideoFrames backend now frames d = Inr (map (clipOfRaw now d) (enumerate 0 rawClips))"
  by (simp add: analyzeVideoFrames_def try_catch_def)

lemma analyzeVideoFrames_Throws:
  "backend frames d = Throws \<Longrightarrow> analyzeVideoFrames backend now frames d = Inl BackendError"
  by (simp add: analyzeVideoFrames_def try_catch_def)

lemma analyzeVideoFrames_lateRaw:
  "analyzeVideoFrames (visualAnswer (Parsed [lateRaw])) clock frames 10 = Inr [lateClip]"
  by (simp add: analyzeVideoFrames_def visualAnswer_def try_catch_def clipOfRaw_def
        lateRaw_def lateClip_def demoClip_def clock_def toString_digits)

lemma extract_sampleVideo: "extractFramesFromVideo sampleVideo 4 45 = Inr sampleFrames"
  apply (simp add: extractFramesFromVideo_def sampleVideo_def sampleFrames_def)
  apply (subst captureFrame.simps, simp)
  apply (subst captureFrame.simps, simp)
  apply (subst captureFrame.simps, simp)
  apply (subst captureFrame.simps, simp)
  done

text \<open>
  C1, as the code has it.  When the backend's answer parses, \<open>analyzeVideoFrames\<close>
  returns one clip for every raw candidate, in the order of the candidates, with
  \<open>startTime\<close> clamped to at least 0 and \<open>endTime\<close> clamped to at most the video
  duration.  No candidate is left out, whatever its two times are.
\<close>

theorem analyzeVideoFrames_clamps_keeps_all:
  assumes "backend frames videoDuration = Parsed rawClips"
  shows "\<exists>cs. analyzeVideoFrames backend now frames videoDuration = Inr cs \<and>
     length cs = length rawClips \<and>
     (\<forall>i < length rawClips.
        startTime (cs ! i) = max 0 (rawStartTime (rawClips ! i)) \<and>
        endTime (cs ! i) = min videoDuration (rawEndTime (rawClips ! i)) \<and>
        0 \<le> startTime (cs ! i) \<and> endTime (cs ! i) \<le> videoDuration \<and>
        title (cs ! i) = rawTitle (rawClips ! i) \<and>
        transcriptStub (cs ! i) = rawTranscriptStub (rawClips ! i))"
  using assms by (simp add: analyzeVideoFrames_Parsed nth_enumerate_eq clipOfRaw_def)

theorem analyzeVideoFrames_clamps_keeps_all_witness:
  "visualAnswer (Parsed [earlyRaw, lateRaw]) sampleFrames 10 = Parsed [earlyRaw, lateRaw] \<and>
   (\<exists>cs. analyzeVideoFrames (visualAnswer (Parsed [earlyRaw, lateRaw])) clock sampleFrames 10 =
           Inr cs \<and>
     length cs = length [earlyRaw, lateRaw] \<and>
     (\<forall>i < length [earlyRaw, lateRaw].
        startTime (cs ! i) = max 0 (rawStartTime ([earlyRaw, lateRaw] ! i)) \<and>
        endTime (cs ! i) = min 10 (rawEndTime ([earlyRaw, lateRaw] ! i)) \<and>
        0 \<le> startTime (cs ! i) \<and> endTime (cs ! i) \<le> 10 \<and>
        title (cs ! i) = rawTitle ([earlyRaw, lateRaw] ! i) \<and>
        transcriptStub (cs ! i) = rawTranscriptStub ([earlyRaw, lateRaw] ! i)))"
proof -
  have a: "visualAnswer (Parsed [earlyRaw, lateRaw]) sampleFrames 10 = Parsed [earlyRaw, lateRaw]"
    by (simp add: visualAnswer_def)
  from analyzeVideoFrames_clamps_keeps_all
         [of "visualAnswer (Parsed [earlyRaw, lateRaw])" sampleFrames 10 "[earlyRaw, lateRaw]" clock]
       a
  show ?thesis by blast
qed

section \<open>Embeddings\<close>

lemma generateEmbedding_Inr:
  "generateEmbedding backend q =
     Inr (case backend q of EmbedResult (Some (Some values)) \<Rightarrow> values | _ \<Rightarrow> [])"
  by (simp add: generateEmbedding_def try_catch_def split: embed_response.splits option.splits)

lemma embedClip_Inr:
  "embedClip e (index, clip) = Inr (clip\<lparr>embedding := Some (embeddingOf e index clip)\<rparr>)"
  by (simp add: embedClip_def embeddingOf_def generateEmbedding_Inr)

lemma promise_all_embedClip:
  "promise_all (map (embedClip e) ics) =
     Inr (map (\<lambda>(index, clip). clip\<lparr>embedding := Some (embeddingOf e index clip)\<rparr>) ics)"
  by (induction ics) (auto simp add: embedClip_Inr)

section \<open>The pipeline\<close>

lemma transcribe_transcript:
  "transcript (transcribe e vf s) =
     (case audioTrack vf of
        Inl err \<Rightarrow> transcript s
      | Inr audio \<Rightarrow>
          (case transcriptBackend e audio of Parsed segments \<Rightarrow> segments | _ \<Rightarrow> []))"
  by (simp add: transcribe_def extractAudio_def generateTranscript_def try_catch_def
        split: sum.splits response.splits)

lemma transcribe_fields [simp]:
  "appState (transcribe e vf s) = appState s"
  "clips (transcribe e vf s) = clips s"
  "filteredClips (transcribe e vf s) = filteredClips s"
  "activeClip (transcribe e vf s) = activeClip s"
  "sortOrder (transcribe e vf s) = sortOrder s"
  by (simp_all add: transcribe_def extractAudio_def generateTranscript_def try_catch_def
        split: sum.splits response.splits)

text \<open>The run in which the frames are extracted and the visual analysis answers.\<close>

lemma handleFileSelect_ready:
  assumes "extractFramesFromVideo vf 4 45 = Inr frames"
      and "analyzeVideoFrames (visualBackend e) (dateNow e) frames (fileDuration vf) =
             Inr generatedClips"
  shows "fst (handleFileSelect e vf source (h, s)) =
           h @ [[], map (\<lambda>(index, clip). clip\<lparr>embedding := Some (embeddingOf e index clip)\<rparr>)
                       (enumerate 0 generatedClips),
                sortBy (comparator (sortOrder s))
                  (map (\<lambda>(index, clip). clip\<lparr>embedding := Some (embeddingOf e index clip)\<rparr>)
                       (enumerate 0 generatedClips))]"
    and "appState (snd (handleFileSelect e vf source (h, s))) = READY"
    and "clips (snd (handleFileSelect e vf source (h, s))) = length h + 2"
    and "filteredClips (snd (handleFileSelect e vf source (h, s))) = length h + 2"
    and "transcript (snd (handleFileSelect e vf source (h, s))) =
          (case audioTrack vf of
             Inl err \<Rightarrow> []
           | Inr audio \<Rightarrow>
               (case transcriptBackend e audio of Parsed segments \<Rightarrow> segments | _ \<Rightarrow> []))"
  using assms
  by (simp_all add: handleFileSelect_def array_new_def Let_def promise_all_embedClip sortClips_eq
        nth_append transcribe_transcript split: sum.splits)

text \<open>The run in which the frames are extracted and the visual analysis fails.\<close>

lemma handleFileSelect_visual_error:
  assumes "extractFramesFromVideo vf 4 45 = Inr frames"
      and "analyzeVideoFrames (visualBackend e) (dateNow e) frames (fileDuration vf) = Inl err"
  shows "fst (handleFileSelect e vf source (h, s)) = h @ [[]]"
    and "appState (snd (handleFileSelect e vf source (h, s))) = ERROR"
    and "clips (snd (handleFileSelect e vf source (h, s))) = length h"
    and "activeClip (snd (handleFileSelect e vf source (h, s))) = None"
    and "transcript (snd (handleFileSelect e vf source (h, s))) = []"
  using assms
  by (simp_all add: handleFileSelect_def array_new_def Let_def)

lemma demoEnv_fields [simp]:
  "visualBackend (demoEnv answer) = visualAnswer answer"
  "dateNow (demoEnv answer) = clock"
  "transcriptBackend (demoEnv answer) audio = Throws"
  by (simp_all add: demoEnv_def)

lemma sampleVideo_fields [simp]:
  "fileDuration sampleVideo = 10"
  "audioTrack sampleVideo = Inr ''uQ''"
  by (simp_all add: sampleVideo_def)

lemma analyze_demo_two:
  "analyzeVideoFrames (visualBackend (demoEnv (Parsed [earlyRaw, lateRaw])))
     (dateNow (demoEnv (Parsed [earlyRaw, lateRaw]))) sampleFrames (fileDuration sampleVideo) =
   Inr [demoClip 0 0 4 60 ''intro'', demoClip 1 10 10 80 ''credits'']"
  by (simp add: analyzeVideoFrames_def visualAnswer_def try_catch_def clipOfRaw_def
        lateRaw_def earlyRaw_def demoClip_def clock_def toString_digits)

text \<open>
  C1 as stated fails.  The backend proposes a candidate from second 10 to second 25 of a
  video of 10 seconds.  After clamping its start and its end are both 10, and
  \<open>analyzeVideoFrames\<close> returns it; the pipeline then publishes it.
\<close>

theorem zero_length_clip_returned:
  "analyzeVideoFrames (visualAnswer (Parsed [lateRaw])) clock sampleFrames 10 = Inr [lateClip] \<and>
   startTime lateClip = 10 \<and> endTime lateClip = 10 \<and>
   storedClips (handleFileSelect (demoEnv (Parsed [lateRaw])) sampleVideo Upload
                  ([[], []], initialApp)) =
     [lateClip\<lparr>embedding := Some [1, 0]\<rparr>]"
proof -
  have a: "analyzeVideoFrames (visualBackend (demoEnv (Parsed [lateRaw])))
             (dateNow (demoEnv (Parsed [lateRaw]))) sampleFrames (fileDuration sampleVideo) =
           Inr [lateClip]"
    by (simp add: analyzeVideoFrames_lateRaw)
  note r = handleFileSelect_ready [OF extract_sampleVideo a, of Upload "[[], []]" initialApp]
  have "storedClips (handleFileSelect (demoEnv (Parsed [lateRaw])) sampleVideo Upload
                  ([[], []], initialApp)) =
        sortBy (comparator (sortOrder initialApp))
          (map (\<lambda>(index, clip). clip\<lparr>embedding :=
                  Some (embeddingOf (demoEnv (Parsed [lateRaw])) index clip)\<rparr>)
             (enumerate 0 [lateClip]))"
    by (simp add: storedClips_def r(1,3))
  also have "\<dots> = [lateClip\<lparr>embedding := Some [1, 0]\<rparr>]"
    by (simp add: sortBy_def embeddingOf_def demoEnv_def)
  finally show ?thesis
    by (simp add: analyzeVideoFrames_lateRaw) (simp add: lateClip_def demoClip_def)
qed

text \<open>
  C5.  In a run whose frames are extracted and whose visual analysis answers, if the
  audio extraction throws or the transcription backend throws, the run ends in
  \<open>READY\<close> with an empty transcript, and the clips it publishes are the generated
  clips with their embeddings, sorted, the same array being stored and shown.
\<close>

theorem transcription_failure_not_fatal:
  assumes "extractFramesFromVideo vf 4 45 = Inr frames"
      and "analyzeVideoFrames (visualBackend e) (dateNow e) frames (fileDuration vf) =
             Inr generatedClips"
      and "audioTrack vf = Inl err \<or>
           (\<exists>audio. audioTrack vf = Inr audio \<and> transcriptBackend e audio = Throws)"
  shows "appState (snd (handleFileSelect e vf source (h, s))) = READY \<and>
     transcript (snd (handleFileSelect e vf source (h, s))) = [] \<and>
     storedClips (handleFileSelect e vf source (h, s)) =
       sortBy (comparator (sortOrder s))
         (map (\<lambda>(index, clip). clip\<lparr>embedding := Some (embeddingOf e index clip)\<rparr>)
            (enumerate 0 generatedClips)) \<and>
     shownClips (handleFileSelect e vf source (h, s)) =
       storedClips (handleFileSelect e vf source (h, s))"
proof -
  note r = handleFileSelect_ready [OF assms(1,2), of source h s]
  have t: "transcript (snd (handleFileSelect e vf source (h, s))) = []"
    using assms(3) by (auto simp add: r(5))
  show ?thesis
    by (simp add: r(1-4) t storedClips_def shownClips_def nth_append)
qed

theorem transcription_failure_not_fatal_witness:
  "extractFramesFromVideo sampleVideo 4 45 = Inr sampleFrames \<and>
   (\<exists>audio. audioTrack sampleVideo = Inr audio \<and>
      transcriptBackend (demoEnv (Parsed [earlyRaw, lateRaw])) audio = Throws) \<and>
   appState (snd (handleFileSelect (demoEnv (Parsed [earlyRaw, lateRaw])) sampleVideo Upload
                    ([[], []], initialApp))) = READY \<and>
   transcript (snd (handleFileSelect (demoEnv (Parsed [earlyRaw, lateRaw])) sampleVideo Upload
                    ([[], []], initialApp))) = [] \<and>
   storedClips (handleFileSelect (demoEnv (Parsed [earlyRaw, lateRaw])) sampleVideo Upload
                    ([[], []], initialApp)) =
     [(demoClip 0 0 4 60 ''intro'')\<lparr>embedding := Some [1, 0]\<rparr>,
      (demoClip 1 10 10 80 ''credits'')\<lparr>embedding := Some []\<rparr>]"
proof -
  have b: "audioTrack sampleVideo = Inl AudioError \<or>
     (\<exists>audio. audioTrack sampleVideo = Inr audio \<and>
        transcriptBackend (demoEnv (Parsed [earlyRaw, lateRaw])) audio = Throws)"
    by simp
  have c: "sortBy (comparator (sortOrder initialApp))
         (map (\<lambda>(index, clip). clip\<lparr>embedding :=
                 Some (embeddingOf (demoEnv (Parsed [earlyRaw, lateRaw])) index clip)\<rparr>)
            (enumerate 0 [demoClip 0 0 4 60 ''intro'', demoClip 1 10 10 80 ''credits''])) =
     [(demoClip 0 0 4 60 ''intro'')\<lparr>embedding := Some [1, 0]\<rparr>,
      (demoClip 1 10 10 80 ''credits'')\<lparr>embedding := Some []\<rparr>]"
    by (simp add: sortBy_def comparator_def initialApp_def embeddingOf_def demoEnv_def
          demoClip_def)
  from transcription_failure_not_fatal [OF extract_sampleVideo analyze_demo_two b,
      of Upload "[[], []]" initialApp]
  show ?thesis using extract_sampleVideo c by simp
qed

text \<open>
  C6.  In a run whose frames are extracted, if the call of the visual-analysis backend
  throws, the run ends in \<open>ERROR\<close>; the stored clip array is the empty array of the
  reset, no clip is active and the transcript is empty.
\<close>

theorem visual_failure_fatal:
  assumes "extractFramesFromVideo vf 4 45 = Inr frames"
      and "visualBackend e frames (fileDuration vf) = Throws"
  shows "appState (snd (handleFileSelect e vf source (h, s))) = ERROR \<and>
     storedClips (handleFileSelect e vf source (h, s)) = [] \<and>
     activeClip (snd (handleFileSelect e vf source (h, s))) = None \<and>
     transcript (snd (handleFileSelect e vf source (h, s))) = []"
proof -
  have "analyzeVideoFrames (visualBackend e) (dateNow e) frames (fileDuration vf) =
          Inl BackendError"
    using assms(2) by (rule analyzeVideoFrames_Throws)
  from handleFileSelect_visual_error [OF assms(1) this]
  show ?thesis by (simp add: storedClips_def)
qed

theorem visual_failure_fatal_witness:
  "extractFramesFromVideo sampleVideo 4 45 = Inr sampleFrames \<and>
   visualBackend (demoEnv Throws) sampleFrames (fileDuration sampleVideo) = Throws \<and>
   appState (snd (handleFileSelect (demoEnv Throws) sampleVideo Youtube
                    ([viralityExample], demoState ''a'' [launchSegment]))) = ERROR \<and>
   storedClips (handleFileSelect (demoEnv Throws) sampleVideo Youtube
                    ([viralityExample], demoState ''a'' [launchSegment])) = [] \<and>
   activeClip (snd (handleFileSelect (demoEnv Throws) sampleVideo Youtube
                    ([viralityExample], demoState ''a'' [launchSegment]))) = None \<and>
   transcript (snd (handleFileSelect (demoEnv Throws) sampleVideo Youtube
                    ([viralityExample], demoState ''a'' [launchSegment]))) = []"
proof -
  have b: "visualBackend (demoEnv Throws) sampleFrames (fileDuration sampleVideo) = Throws"
    by (simp add: visualAnswer_def)
  from visual_failure_fatal [OF extract_sampleVideo b, of Youtube
      "[viralityExample]" "demoState ''a'' [launchSegment]"]
  show ?thesis using extract_sampleVideo b by simp
qed

text \<open>
  C10.  \<open>generateEmbedding\<close> returns a vector for every text and every behaviour of the
  backend: the backend's values if its answer has them, the empty vector if the call
  throws or the answer lacks them; it never returns an error.  So the fan-in over the
  clips never rejects, and a run whose frames are extracted and whose visual analysis
  answers ends in \<open>READY\<close> and publishes every generated clip with an embedding.
\<close>

theorem generateEmbedding_never_fails:
  assumes "extractFramesFromVideo vf 4 45 = Inr frames"
      and "analyzeVideoFrames (visualBackend e) (dateNow e) frames (fileDuration vf) =
             Inr generatedClips"
  shows "generateEmbedding backend text =
       Inr (case backend text of EmbedResult (Some (Some values)) \<Rightarrow> values | _ \<Rightarrow> []) \<and>
     promise_all (map (embedClip e) (enumerate 0 generatedClips)) =
       Inr (map (\<lambda>(index, clip). clip\<lparr>embedding := Some (embeddingOf e index clip)\<rparr>)
              (enumerate 0 generatedClips)) \<and>
     appState (snd (handleFileSelect e vf source (h, s))) = READY \<and>
     length (storedClips (handleFileSelect e vf source (h, s))) = length generatedClips \<and>
     (\<forall>c \<in> set (storedClips (handleFileSelect e vf source (h, s))). embedding c \<noteq> None)"
proof -
  note r = handleFileSelect_ready [OF assms(1,2), of source h s]
  let ?embedded = "map (\<lambda>(index, clip). clip\<lparr>embedding := Some (embeddingOf e index clip)\<rparr>)
            (enumerate 0 generatedClips)"
  have st: "storedClips (handleFileSelect e vf source (h, s)) =
      sortBy (comparator (sortOrder s)) ?embedded"
    by (simp add: r(1,3) storedClips_def nth_append)
  have m: "mset (storedClips (handleFileSelect e vf source (h, s))) = mset ?embedded"
    by (simp add: st mset_sortBy)
  have len: "length (storedClips (handleFileSelect e vf source (h, s))) = length generatedClips"
    using mset_eq_length [OF m] by simp
  have "set (storedClips (handleFileSelect e vf source (h, s))) = set ?embedded"
    using mset_eq_setD [OF m] .
  then have emb: "\<forall>c \<in> set (storedClips (handleFileSelect e vf source (h, s))).
      embedding c \<noteq> None"
    by auto
  show ?thesis
    using len emb by (simp add: generateEmbedding_Inr promise_all_embedClip r(2))
qed

theorem generateEmbedding_never_fails_witness:
  "extractFramesFromVideo sampleVideo 4 45 = Inr sampleFrames \<and>
   generateEmbedding failingBackend ''Title Summary tag Reasoning'' = Inr [] \<and>
   generateEmbedding unitBackend ''Title Summary tag Reasoning'' = Inr [1, 0] \<and>
   appState (snd (handleFileSelect (demoEnv (Parsed [earlyRaw, lateRaw])) sampleVideo Upload
                    ([[], []], initialApp))) = READY \<and>
   length (storedClips (handleFileSelect (demoEnv (Parsed [earlyRaw, lateRaw])) sampleVideo
                    Upload ([[], []], initialApp))) = 2 \<and>
   list_all (\<lambda>c. embedding c \<noteq> None)
     (storedClips (handleFileSelect (demoEnv (Parsed [earlyRaw, lateRaw]))
                    sampleVideo Upload ([[], []], initialApp)))"
proof -
  note w = generateEmbedding_never_fails [OF extract_sampleVideo analyze_demo_two,
      of _ _ Upload "[[], []]" initialApp]
  have f: "generateEmbedding failingBackend ''Title Summary tag Reasoning'' = Inr []"
    using w [of failingBackend "''Title Summary tag Reasoning''"]
    by (simp add: failingBackend_def)
  have u: "generateEmbedding unitBackend ''Title Summary tag Reasoning'' = Inr [1, 0]"
    using w [of unitBackend "''Title Summary tag Reasoning''"]
    by (simp add: unitBackend_def)
  from w [of failingBackend "[]"] f u extract_sampleVideo show ?thesis
    by (simp add: list_all_iff)
qed

section \<open>Search\<close>

lemma cosineSimilarity_empty [simp]: "cosineSimilarity [] e = 0"
  by (simp add: cosineSimilarity_def)

lemma cosineSimilarity_zero [simp]: "cosineSimilarity q [0, 0] = 0"
  by (simp add: cosineSimilarity_def magnitude_def dot_def)

lemma boostClip_fields [simp]:
  "transcriptStub (boostClip ql segs c) = transcriptStub c"
  "startTime (boostClip ql segs c) = startTime c"
  "endTime (boostClip ql segs c) = endTime c"
  "viralityScore (boostClip ql segs c) = viralityScore c"
  "embedding (boostClip ql segs c) = embedding c"
  by (simp_all add: boostClip_def Let_def)

lemma scoreClip_fields [simp]:
  "transcriptStub (scoreClip q c) = transcriptStub c"
  "startTime (scoreClip q c) = startTime c"
  "endTime (scoreClip q c) = endTime c"
  "viralityScore (scoreClip q c) = viralityScore c"
  "embedding (scoreClip q c) = embedding c"
  by (simp_all add: scoreClip_def)

text \<open>A blank query: the stored clips are copied and sorted, nothing is scored.\<close>

lemma handleSearch_blank:
  "trim (searchQuery s) = [] \<Longrightarrow>
   handleSearch backend (h, s) =
     (h @ [sortBy (comparator (sortOrder s)) (h ! clips s)], s\<lparr>filteredClips := length h\<rparr>)"
  by (simp add: handleSearch_def sortClips_eq)

text \<open>
  Any other query: four arrays are allocated, the scored clips, the boosted clips, the
  retained clips and their sorted copy.  The \<^verbatim>\<open>catch\<close> branch is never taken,
  since \<open>generateEmbedding\<close> returns a vector.
\<close>

lemma handleSearch_query:
  "trim (searchQuery s) \<noteq> [] \<Longrightarrow>
   handleSearch backend (h, s) =
     (let q = (case backend (searchQuery s) of
                 EmbedResult (Some (Some values)) \<Rightarrow> values | _ \<Rightarrow> []);
          ql = toLowerCase (searchQuery s);
          segs = filter (\<lambda>seg. includes' (toLowerCase (segText seg)) ql) (transcript s);
          scored = map (scoreClip q) (h ! clips s);
          boosted = map (boostClip ql segs) scored;
          kept = filter (keepClip ql) boosted
      in (h @ [scored, boosted, kept, sortBy (comparator (sortOrder s)) kept],
          s\<lparr>filteredClips := length h + 3, activeSidebarTab := ClipsTab,
             isSearching := False\<rparr>))"
  by (simp add: handleSearch_def generateEmbedding_Inr sortClips_eq array_map_def
        array_filter_def array_new_def Let_def nth_append)

lemma shownClips_query:
  assumes "trim (searchQuery s) \<noteq> []"
  shows "shownClips (handleSearch backend (h, s)) =
     sortBy (comparator (sortOrder s))
       (filter (keepClip (toLowerCase (searchQuery s)))
         (map (\<lambda>c. boostClip (toLowerCase (searchQuery s))
                 (filter (\<lambda>seg. includes' (toLowerCase (segText seg))
                                 (toLowerCase (searchQuery s)))
                    (transcript s))
                 (scoreClip (case backend (searchQuery s) of
                               EmbedResult (Some (Some values)) \<Rightarrow> values | _ \<Rightarrow> []) c))
            (h ! clips s)))"
  by (simp add: handleSearch_query [OF assms] shownClips_def Let_def nth_append comp_def)

lemma demoState_fields [simp]:
  "searchQuery (demoState query segments) = query"
  "transcript (demoState query segments) = segments"
  "clips (demoState query segments) = 0"
  "sortOrder (demoState query segments) = Time"
  by (simp_all add: demoState_def)

lemma query_strings:
  "trim ''launch'' \<noteq> []" "trim ''Exact Phrase'' \<noteq> []" "trim '' '' = []"
  "toLowerCase ''launch'' = ''launch''" "toLowerCase ''Launch'' = ''launch''"
  "toLowerCase ''Exact Phrase'' = ''exact phrase''"
  "toLowerCase ''exact phrase here'' = ''exact phrase here''"
  "toLowerCase ''something else'' = ''something else''"
  "toLowerCase ''countdown'' = ''countdown''"
  "toLowerCase ''We launch today'' = ''we launch today''"
  "toLowerCase ''outro'' = ''outro''"
  "toLowerCase ''ab'' = ''ab''" "toLowerCase '' '' = '' ''"
  by (simp_all add: string_eval)

text \<open>
  C3 as stated fails for a query that is not empty but blank.  The query is one space;
  the clip has no embedding and its \<open>transcriptStub\<close> \<open>ab\<close> does not contain a space.  The
  search keeps the clip, without a score; the score the ranking would give it is 0.
\<close>

theorem blank_query_keeps_unmatched_clip:
  "searchQuery (demoState '' '' []) \<noteq> [] \<and>
   shownClips (handleSearch failingBackend ([[plainClip]], demoState '' '' [])) = [plainClip] \<and>
   score plainClip = None \<and>
   score (boostClip (toLowerCase '' '') [] (scoreClip [] plainClip)) = Some 0 \<and>
   \<not> includes' (toLowerCase (transcriptStub plainClip)) (toLowerCase '' '')"
proof -
  have "shownClips (handleSearch failingBackend ([[plainClip]], demoState '' '' [])) = [plainClip]"
    by (simp add: handleSearch_blank query_strings shownClips_def sortBy_def)
  then show ?thesis
    by (simp add: plainClip_def demoClip_def boostClip_def scoreClip_def query_strings)
qed

text \<open>
  C3, as the code has it.  For a query that is not blank (not empty after trimming
  white space) the clips shown are exactly the ranked clips whose final score exceeds
  0.3 or whose \<open>transcriptStub\<close> contains the query, case-insensitively.  The ranked
  clip is the stored clip after the scoring and the boosting callback.
\<close>

theorem search_retains:
  assumes "trim (searchQuery s) \<noteq> []"
      and "generateEmbedding backend (searchQuery s) = Inr queryEmbedding"
  shows "mset (shownClips (handleSearch backend (h, s))) =
     mset (filter (\<lambda>c. (\<exists>v. score c = Some v \<and> v > 3 / 10) \<or>
                      includes' (toLowerCase (transcriptStub c))
                        (toLowerCase (searchQuery s)))
            (map (\<lambda>c. boostClip (toLowerCase (searchQuery s))
                 (filter (\<lambda>seg. includes' (toLowerCase (segText seg))
                                 (toLowerCase (searchQuery s)))
                    (transcript s))
                 (scoreClip queryEmbedding c))
            (storedClips (h, s))))"
proof -
  have q: "(case backend (searchQuery s) of
              EmbedResult (Some (Some values)) \<Rightarrow> values | _ \<Rightarrow> []) = queryEmbedding"
    using assms(2) by (simp add: generateEmbedding_Inr)
  have k: "keepClip ql c = ((\<exists>v. score c = Some v \<and> v > 3 / 10) \<or>
                      includes' (toLowerCase (transcriptStub c)) ql)" for ql c
    by (cases "score c") (simp_all add: keepClip_def)
  show ?thesis
    by (simp add: shownClips_query [OF assms(1)] q mset_sortBy k storedClips_def)
qed

theorem search_retains_witness:
  "trim (searchQuery (demoState ''Exact Phrase'' [])) \<noteq> [] \<and>
   generateEmbedding unitBackend (searchQuery (demoState ''Exact Phrase'' [])) = Inr [1, 0] \<and>
   mset (shownClips (handleSearch unitBackend ([phraseClips], demoState ''Exact Phrase'' []))) =
     mset [(phraseClips ! 0)\<lparr>score := Some (1 / 2)\<rparr>]"
proof -
  have a: "trim (searchQuery (demoState ''Exact Phrase'' [])) \<noteq> []"
    by (simp add: query_strings)
  have b: "generateEmbedding unitBackend (searchQuery (demoState ''Exact Phrase'' [])) =
      Inr [1, 0]"
    by (simp add: generateEmbedding_Inr unitBackend_def)
  from search_retains [OF a b, of "[phraseClips]"] a b show ?thesis
    by (simp add: storedClips_def phraseClips_def demoClip_def boostClip_def scoreClip_def
          query_strings)
qed

text \<open>
  Two queries beyond the letters A to Z.  The no-break space alone is a blank query: the
  search shows the stored clip unscored.  For the query capital E with acute, a clip
  whose \<open>transcriptStub\<close> is the small letter is ranked with 0.5 and shown.
\<close>

lemma no_break_space_query_is_blank:
  "shownClips (handleSearch failingBackend
      ([[plainClip]], demoState [char_of (160 :: nat)] [])) = [plainClip]"
  by (simp add: handleSearch_blank latin1_strings shownClips_def sortBy_def)

lemma capital_query_matches_small_stub:
  "shownClips (handleSearch failingBackend
      ([[demoClip 0 5 15 80 [char_of (233 :: nat)]]], demoState [char_of (201 :: nat)] [])) =
     [(demoClip 0 5 15 80 [char_of (233 :: nat)])\<lparr>score := Some (1 / 2)\<rparr>]"
proof -
  have a: "trim (searchQuery (demoState [char_of (201 :: nat)] [])) \<noteq> []"
    by (simp add: string_eval)
  have b: "toLowerCase [char_of (233 :: nat)] = [char_of (233 :: nat)]"
    by (simp add: string_eval)
  show ?thesis
    unfolding shownClips_query [OF a]
    by (simp add: latin1_strings b failingBackend_def demoClip_def boostClip_def scoreClip_def
          keepClip_def sortBy_def comparator_def)
qed

text \<open>
  C4 as stated fails for a query that is not empty but blank.  The query is one space
  and the clip's \<open>transcriptStub\<close> contains a space, so condition (b) holds.  The search
  allocates only the sorted copy of the stored clips and shows the clip as it is stored,
  without a score: no score is computed and nothing is added.
\<close>

theorem blank_query_applies_no_boost:
  "searchQuery (demoState '' '' [launchSegment]) \<noteq> [] \<and>
   includes' (toLowerCase (transcriptStub spacedClip)) (toLowerCase '' '') \<and>
   handleSearch unitBackend ([[spacedClip]], demoState '' '' [launchSegment]) =
     ([[spacedClip], [spacedClip]], (demoState '' '' [launchSegment])\<lparr>filteredClips := 1\<rparr>) \<and>
   score spacedClip = None"
proof -
  have a: "toLowerCase ''We launch today'' = ''we launch today''" "toLowerCase '' '' = '' ''"
    "trim '' '' = []"
    by (simp_all add: string_eval)
  have "handleSearch unitBackend ([[spacedClip]], demoState '' '' [launchSegment]) =
     ([[spacedClip], [spacedClip]], (demoState '' '' [launchSegment])\<lparr>filteredClips := 1\<rparr>)"
    by (simp add: handleSearch_blank a sortBy_def)
  then show ?thesis
    by (simp add: spacedClip_def demoClip_def a)
qed

text \<open>
  C4, as the code has it.  For a query that is not blank (not empty after trimming
  white space), the search gives every stored clip its base score plus 0.5, added once,
  if some transcript segment whose text contains the query (case-insensitively)
  overlaps the clip or the clip's own \<open>transcriptStub\<close> contains the query, and its base
  score otherwise.  A segment overlaps a clip if its start lies in the clip's span, or
  its end does, or the clip's span lies inside the segment's.  The clips with these
  scores are the array the search allocates second, and the clips shown are among them.
\<close>

theorem search_boost:
  assumes "trim (searchQuery s) \<noteq> []"
      and "generateEmbedding backend (searchQuery s) = Inr queryEmbedding"
  shows "rankedClips h (handleSearch backend (h, s)) =
       map (\<lambda>clip. clip\<lparr>score := Some
              ((case embedding clip of
                  Some e \<Rightarrow> cosineSimilarity queryEmbedding e
                | None \<Rightarrow> 0) +
               (if (\<exists>seg \<in> set (transcript s).
                      includes' (toLowerCase (segText seg)) (toLowerCase (searchQuery s)) \<and>
                      ((startTime clip \<le> segStartTime seg \<and> segStartTime seg < endTime clip) \<or>
                       (startTime clip < segEndTime seg \<and> segEndTime seg \<le> endTime clip) \<or>
                       (segStartTime seg \<le> startTime clip \<and> endTime clip \<le> segEndTime seg))) \<or>
                   includes' (toLowerCase (transcriptStub clip)) (toLowerCase (searchQuery s))
                then 1 / 2 else 0))\<rparr>)
         (storedClips (h, s)) \<and>
     set (shownClips (handleSearch backend (h, s))) \<subseteq>
       set (rankedClips h (handleSearch backend (h, s)))"
proof -
  let ?ql = "toLowerCase (searchQuery s)"
  let ?segs = "filter (\<lambda>seg. includes' (toLowerCase (segText seg)) ?ql) (transcript s)"
  have q: "(case backend (searchQuery s) of
              EmbedResult (Some (Some values)) \<Rightarrow> values | _ \<Rightarrow> []) = queryEmbedding"
    using assms(2) by (simp add: generateEmbedding_Inr)
  have r: "rankedClips h (handleSearch backend (h, s)) =
      map (\<lambda>c. boostClip ?ql ?segs (scoreClip queryEmbedding c)) (h ! clips s)"
    by (simp add: handleSearch_query [OF assms(1)] rankedClips_def Let_def nth_append q comp_def)
  have b: "boostClip ?ql ?segs (scoreClip queryEmbedding clip) =
      clip\<lparr>score := Some
              ((case embedding clip of
                  Some e \<Rightarrow> cosineSimilarity queryEmbedding e
                | None \<Rightarrow> 0) +
               (if (\<exists>seg \<in> set (transcript s).
                      includes' (toLowerCase (segText seg)) ?ql \<and>
                      ((startTime clip \<le> segStartTime seg \<and> segStartTime seg < endTime clip) \<or>
                       (startTime clip < segEndTime seg \<and> segEndTime seg \<le> endTime clip) \<or>
                       (segStartTime seg \<le> startTime clip \<and> endTime clip \<le> segEndTime seg))) \<or>
                   includes' (toLowerCase (transcriptStub clip)) ?ql
                then 1 / 2 else 0))\<rparr>" for clip
    by (auto simp add: boostClip_def scoreClip_def Let_def list_ex_iff)
  have sh: "shownClips (handleSearch backend (h, s)) =
      sortBy (comparator (sortOrder s))
        (filter (keepClip ?ql) (rankedClips h (handleSearch backend (h, s))))"
    by (simp add: r shownClips_query [OF assms(1)] q)
  have "set (shownClips (handleSearch backend (h, s))) \<subseteq>
       set (rankedClips h (handleSearch backend (h, s)))"
    using mset_eq_setD [OF mset_sortBy [of "sortOrder s"
       "filter (keepClip ?ql) (rankedClips h (handleSearch backend (h, s)))"]]
    by (auto simp add: sh)
  then show ?thesis by (simp add: r b storedClips_def)
qed

text \<open>
  The query is \<open>launch\<close>.  The first clip overlaps a segment that says \<open>Launch\<close>, the
  second has the word in its own \<open>transcriptStub\<close>, the third overlaps only a segment
  that does not contain the query: 0.5 is added to the first two and not to the third.
\<close>

theorem search_boost_witness:
  "trim (searchQuery (demoState ''launch'' [launchSegment, outroSegment])) \<noteq> [] \<and>
   generateEmbedding unitBackend
     (searchQuery (demoState ''launch'' [launchSegment, outroSegment])) = Inr [1, 0] \<and>
   rankedClips [rankingClips]
     (handleSearch unitBackend
        ([rankingClips], demoState ''launch'' [launchSegment, outroSegment])) =
     [(rankingClips ! 0)\<lparr>score := Some (cosineSimilarity [1, 0] [0, 1] + 1 / 2)\<rparr>,
      (rankingClips ! 1)\<lparr>score := Some (cosineSimilarity [1, 0] [0, 1] + 1 / 2)\<rparr>,
      (rankingClips ! 2)\<lparr>score := Some (cosineSimilarity [1, 0] [0, 1])\<rparr>]"
proof -
  have a: "trim (searchQuery (demoState ''launch'' [launchSegment, outroSegment])) \<noteq> []"
    by (simp add: query_strings)
  have b: "generateEmbedding unitBackend
     (searchQuery (demoState ''launch'' [launchSegment, outroSegment])) = Inr [1, 0]"
    by (simp add: generateEmbedding_Inr unitBackend_def)
  have c: "toLowerCase ''Outro music'' = ''outro music''" "toLowerCase ''credits'' = ''credits''"
    by (simp_all add: string_eval)
  from search_boost [OF a b, of "[rankingClips]"] a b show ?thesis
    by (simp add: storedClips_def rankingClips_def demoClip_def launchSegment_def
          outroSegment_def query_strings c)
qed

text \<open>
  What the search does when the embedding call throws for a query that is not blank:
  \<open>generateEmbedding\<close> returns the empty vector, the search stays in its \<^verbatim>\<open>try\<close>
  block and ends without an error, every cosine score is 0, and the clips shown are the
  stored clips whose \<open>transcriptStub\<close> contains the query or that overlap a transcript
  segment whose text contains the query, each with the score 0.5.
\<close>

lemma handleSearch_embedding_throws:
  assumes "trim (searchQuery s) \<noteq> []"
      and "backend (searchQuery s) = EmbedThrows"
  shows "generateEmbedding backend (searchQuery s) = Inr [] \<and>
     isSearching (snd (handleSearch backend (h, s))) = False \<and>
     shownClips (handleSearch backend (h, s)) =
       sortBy (comparator (sortOrder s))
         (map (\<lambda>c. c\<lparr>score := Some (1 / 2)\<rparr>)
           (filter (\<lambda>c. (\<exists>seg \<in> set (transcript s).
                includes' (toLowerCase (segText seg)) (toLowerCase (searchQuery s)) \<and>
                ((startTime c \<le> segStartTime seg \<and> segStartTime seg < endTime c) \<or>
                 (startTime c < segEndTime seg \<and> segEndTime seg \<le> endTime c) \<or>
                 (segStartTime seg \<le> startTime c \<and> endTime c \<le> segEndTime seg))) \<or>
               includes' (toLowerCase (transcriptStub c)) (toLowerCase (searchQuery s)))
            (storedClips (h, s))))"
proof -
  let ?ql = "toLowerCase (searchQuery s)"
  let ?segs = "filter (\<lambda>seg. includes' (toLowerCase (segText seg)) ?ql) (transcript s)"
  let ?lex = "\<lambda>c. (\<exists>seg \<in> set (transcript s).
                includes' (toLowerCase (segText seg)) ?ql \<and>
                ((startTime c \<le> segStartTime seg \<and> segStartTime seg < endTime c) \<or>
                 (startTime c < segEndTime seg \<and> segEndTime seg \<le> endTime c) \<or>
                 (segStartTime seg \<le> startTime c \<and> endTime c \<le> segEndTime seg))) \<or>
               includes' (toLowerCase (transcriptStub c)) ?ql"
  let ?rank = "\<lambda>c. boostClip ?ql ?segs (scoreClip [] c)"
  have r: "?rank c = (if ?lex c then c\<lparr>score := Some (1 / 2)\<rparr> else c\<lparr>score := Some 0\<rparr>)"
    for c
    by (auto simp add: boostClip_def scoreClip_def Let_def list_ex_iff split: option.splits)
  have k: "keepClip ?ql (?rank c) = ?lex c" for c
    unfolding r by (simp add: keepClip_def)
  have "filter (keepClip ?ql) (map ?rank xs) =
          map (\<lambda>c. c\<lparr>score := Some (1 / 2)\<rparr>) (filter ?lex xs)" for xs
  proof (induction xs)
    case Nil
    show ?case by simp
  next
    case (Cons x xs)
    have "keepClip ?ql (?rank x) = ?lex x" by (rule k)
    moreover have "?lex x \<Longrightarrow> ?rank x = x\<lparr>score := Some (1 / 2)\<rparr>" using r [of x] by simp
    ultimately show ?case using Cons.IH by (simp del: boostClip_fields scoreClip_fields)
  qed
  then have shown: "shownClips (handleSearch backend (h, s)) =
       sortBy (comparator (sortOrder s))
         (map (\<lambda>c. c\<lparr>score := Some (1 / 2)\<rparr>) (filter ?lex (storedClips (h, s))))"
    using assms(2) by (simp add: shownClips_query [OF assms(1)] storedClips_def)
  have emb: "generateEmbedding backend (searchQuery s) = Inr []"
    using assms(2) by (simp add: generateEmbedding_Inr)
  have fin: "isSearching (snd (handleSearch backend (h, s))) = False"
    by (simp add: handleSearch_query [OF assms(1)] Let_def)
  from emb fin shown show ?thesis by simp
qed

text \<open>
  The \<^verbatim>\<open>catch\<close> block of the search shows the stored clips whose \<open>transcriptStub\<close>
  contains the query, sorted, and nothing else.  No call of \<open>handleSearch\<close> reaches
  it, since \<open>generateEmbedding\<close> never returns an error.
\<close>

lemma searchFallback_shown:
  "shownClips (searchFallback (h, s)) =
     sortBy (comparator (sortOrder s))
       (filter (\<lambda>clip. includes' (toLowerCase (transcriptStub clip))
                         (toLowerCase (searchQuery s)))
          (storedClips (h, s)))"
  by (simp add: searchFallback_def array_filter_def array_new_def sortClips_eq shownClips_def
        storedClips_def Let_def nth_append)

lemma generateEmbedding_not_Inl: "generateEmbedding backend q \<noteq> Inl err"
  by (simp add: generateEmbedding_Inr)

text \<open>The session that the pipeline publishes for the example video.\<close>

lemma analyze_session:
  "analyzeVideoFrames (visualBackend sessionEnv) (dateNow sessionEnv) sampleFrames
     (fileDuration sampleVideo) = Inr [demoClip 0 2 8 80 ''countdown'']"
  by (simp add: sessionEnv_def analyzeVideoFrames_def visualAnswer_def try_catch_def
        clipOfRaw_def overlapRaw_def demoClip_def clock_def toString_digits)

lemma session_eq:
  "fst session = [[], [], [], [sessionClip], [sessionClip]]"
  "clips (snd session) = 4"
  "filteredClips (snd session) = 4"
  "appState (snd session) = READY"
  "transcript (snd session) = [earlySegment]"
  "sortOrder (snd session) = Time"
proof -
  note r = handleFileSelect_ready [OF extract_sampleVideo analyze_session,
      of Upload "[[], []]" initialApp]
  show "fst session = [[], [], [], [sessionClip], [sessionClip]]"
    unfolding session_def r(1)
    by (simp add: sortBy_def embeddingOf_def sessionEnv_def sessionClip_def)
  show "clips (snd session) = 4" unfolding session_def r(3) by simp
  show "filteredClips (snd session) = 4" unfolding session_def r(4) by simp
  show "appState (snd session) = READY" unfolding session_def r(2) by simp
  show "transcript (snd session) = [earlySegment]"
    unfolding session_def r(5) by (simp add: sessionEnv_def)
  show "sortOrder (snd session) = Time"
    by (simp add: session_def handleFileSelect_def Let_def array_new_def initialApp_def
          split: sum.splits prod.splits)
qed

text \<open>
  C7.  The code at the failing input.  The pipeline publishes one clip, from second 2
  to second 8, with an embedding and the \<open>transcriptStub\<close> \<open>countdown\<close>, and a
  transcript segment from second 4 to second 6 that says \<open>Launch\<close>.  The user
  searches for \<open>launch\<close> and the embedding call throws.  The \<open>transcriptStub\<close> does not
  contain the query, and the \<^verbatim>\<open>catch\<close> block would show no clip, as the claim says;
  the search shows the clip, with the score 0.5.
\<close>

theorem embedding_failure_keeps_overlapping_clip:
  "appState (snd session) = READY \<and>
   storedClips session = [sessionClip] \<and>
   transcript (snd session) = [earlySegment] \<and>
   failingBackend ''launch'' = EmbedThrows \<and>
   generateEmbedding failingBackend ''launch'' = Inr [] \<and>
   \<not> includes' (toLowerCase (transcriptStub sessionClip)) (toLowerCase ''launch'') \<and>
   shownClips (searchFallback (withQuery ''launch'' session)) = [] \<and>
   shownClips (handleSearch failingBackend (withQuery ''launch'' session)) =
     [sessionClip\<lparr>score := Some (1 / 2)\<rparr>]"
proof -
  have st: "storedClips session = [sessionClip]"
    by (simp add: storedClips_def session_eq)
  have q: "trim (searchQuery ((snd session)\<lparr>searchQuery := ''launch''\<rparr>)) \<noteq> []"
    by (simp add: query_strings)
  have sh: "shownClips (handleSearch failingBackend (withQuery ''launch'' session)) =
     [sessionClip\<lparr>score := Some (1 / 2)\<rparr>]"
    unfolding withQuery_def shownClips_query [OF q]
    by (simp add: session_eq failingBackend_def query_strings earlySegment_def sessionClip_def
          demoClip_def boostClip_def scoreClip_def keepClip_def sortBy_def comparator_def)
  have n: "\<not> includes' (toLowerCase (transcriptStub sessionClip)) (toLowerCase ''launch'')"
    by (simp add: sessionClip_def demoClip_def query_strings)
  have fb: "shownClips (searchFallback (withQuery ''launch'' session)) = []"
    unfolding withQuery_def searchFallback_shown
    by (simp add: storedClips_def session_eq sessionClip_def demoClip_def query_strings
          sortBy_def)
  show ?thesis
    using st sh n fb
    by (simp add: session_eq generateEmbedding_Inr failingBackend_def)
qed

text \<open>
  C9.  A search only allocates arrays: every array that exists before the search has
  the same elements after it, and the state still refers to the same clip array, the
  same transcript, sort order and query.  So the stored clips, with all their
  properties, the score among them, are what they were.  This holds also when
  \<open>clips\<close> and \<open>filteredClips\<close> are the same array, as they are after a pipeline run.
\<close>

theorem search_leaves_stored_clips:
  "(\<exists>new. fst (handleSearch backend (h, s)) = h @ new) \<and>
   clips (snd (handleSearch backend (h, s))) = clips s \<and>
   transcript (snd (handleSearch backend (h, s))) = transcript s \<and>
   sortOrder (snd (handleSearch backend (h, s))) = sortOrder s \<and>
   searchQuery (snd (handleSearch backend (h, s))) = searchQuery s \<and>
   (clips s < length h \<longrightarrow> storedClips (handleSearch backend (h, s)) = storedClips (h, s))"
proof (cases "trim (searchQuery s) = []")
  case True
  then show ?thesis
    by (simp add: handleSearch_blank storedClips_def nth_append)
next
  case False
  then show ?thesis
    by (simp add: handleSearch_query Let_def storedClips_def nth_append)
qed

theorem search_leaves_stored_clips_witness:
  "clips (demoState ''launch'' [launchSegment]) < length [launchClips] \<and>
   filteredClips (demoState ''launch'' [launchSegment]) =
     clips (demoState ''launch'' [launchSegment]) \<and>
   storedClips (handleSearch failingBackend
      ([launchClips], demoState ''launch'' [launchSegment])) = launchClips \<and>
   shownClips (handleSearch failingBackend
      ([launchClips], demoState ''launch'' [launchSegment])) \<noteq> launchClips"
proof -
  have a: "clips (demoState ''launch'' [launchSegment]) < length [launchClips]" by simp
  have b: "shownClips (handleSearch failingBackend
      ([launchClips], demoState ''launch'' [launchSegment])) \<noteq> launchClips"
    by (simp add: shownClips_query query_strings failingBackend_def launchSegment_def
          launchClips_def countdownClip_def demoClip_def boostClip_def scoreClip_def
          keepClip_def sortBy_def)
  have c: "filteredClips (demoState ''launch'' [launchSegment]) =
     clips (demoState ''launch'' [launchSegment])"
    by (simp add: demoState_def)
  have "storedClips (handleSearch failingBackend
      ([launchClips], demoState ''launch'' [launchSegment])) =
      storedClips ([launchClips], demoState ''launch'' [launchSegment])"
    using search_leaves_stored_clips [of failingBackend "[launchClips]"
      "demoState ''launch'' [launchSegment]"] a by blast
  also have "\<dots> = launchClips" by (simp add: storedClips_def)
  finally show ?thesis using a b c by blast
qed


end
